theory Spec2Isabelle
  imports Complex_Main
begin

section \<open>JavaScript values\<close>

text \<open>
  The two form screens compute with JavaScript numbers and strings. A number is an
  IEEE 754 binary64 value: a finite one is modelled by its exact rational value, beside
  the three non-finite values. Every operation below that produces a number rounds its
  exact result to binary64 (\<open>binary64\<close>), so sums, quotients and parsed literals are
  the doubles the program computes, with their overflow to an infinity and their
  underflow to zero. The two zeros are identified, as \<open>-0 === 0\<close> has it: none of the
  comparisons and truthiness tests of the screens tells them apart, and the one
  divisor that can be zero, the profit factor, is \<open>+0\<close> when it is (it is
  \<open>(100 - 100) / 100\<close>).
\<close>

datatype jsnum = Num rat | NaN | PosInf | NegInf

subsection \<open>Rounding to binary64\<close>

text \<open>The number of binary digits of a positive integer.\<close>

function bitlen :: "int \<Rightarrow> int" where
  "bitlen n = (if n \<le> 0 then 0 else 1 + bitlen (n div 2))"
  by pat_completeness auto
termination
  by (relation "measure nat") auto

declare bitlen.simps [simp del]

definition pow2 :: "int \<Rightarrow> rat" where
  "pow2 k = (if 0 \<le> k then of_int (2 ^ nat k) else 1 / of_int (2 ^ nat (- k)))"

text \<open>The binary exponent of a positive rational \<open>a\<close>: the \<open>e\<close> with
  \<open>2^e \<le> a < 2^(e+1)\<close>.\<close>

definition ilog2 :: "rat \<Rightarrow> int" where
  "ilog2 a = (if 1 \<le> a then bitlen \<lfloor>a\<rfloor> - 1 else - bitlen (\<lceil>1 / a\<rceil> - 1))"

text \<open>Rounding to the nearest integer, a tie to the even one.\<close>

definition roundHalfEven :: "rat \<Rightarrow> int" where
  "roundHalfEven m =
     (let n = \<lfloor>m\<rfloor>; r = m - of_int n
      in if r < 1 / 2 then n
         else if 1 / 2 < r then n + 1
         else if even n then n else n + 1)"

text \<open>
  The binary64 value nearest to a rational, ties to even. The spacing of the doubles
  around \<open>|q|\<close> is \<open>2^(e - 52)\<close> for the exponent \<open>e\<close> of \<open>|q|\<close>, and \<open>2^(-1074)\<close>
  in the subnormal range below \<open>2^(-1022)\<close>; a result of \<open>2^1024\<close> or more is an
  infinity.
\<close>

definition binary64 :: "rat \<Rightarrow> jsnum" where
  "binary64 q =
     (if q = 0 then Num 0
      else
        let a = \<bar>q\<bar>;
            e = max (ilog2 a) (- 1022);
            ulp = pow2 (e - 52);
            n = roundHalfEven (a / ulp);
            r = of_int n * ulp
        in if 1023 < e \<or> (e = 1023 \<and> 2 ^ 53 \<le> n)
           then (if q < 0 then NegInf else PosInf)
           else Num (if q < 0 then - r else r))"

subsection \<open>Arithmetic, comparison, truthiness\<close>

text \<open>A value as the code can meet it at run time: \<open>undefined\<close>, \<open>null\<close>, a boolean,
  a number or a string.\<close>

datatype jsval = Undefined | Null | JBool bool | JNum jsnum | JStr string

fun js_add :: "jsnum \<Rightarrow> jsnum \<Rightarrow> jsnum" where
  "js_add NaN _ = NaN"
| "js_add _ NaN = NaN"
| "js_add (Num a) (Num b) = binary64 (a + b)"
| "js_add PosInf NegInf = NaN"
| "js_add NegInf PosInf = NaN"
| "js_add PosInf _ = PosInf"
| "js_add NegInf _ = NegInf"
| "js_add (Num a) PosInf = PosInf"
| "js_add (Num a) NegInf = NegInf"

fun js_neg :: "jsnum \<Rightarrow> jsnum" where
  "js_neg NaN = NaN"
| "js_neg (Num a) = Num (- a)"
| "js_neg PosInf = NegInf"
| "js_neg NegInf = PosInf"

definition js_sub :: "jsnum \<Rightarrow> jsnum \<Rightarrow> jsnum" where
  "js_sub x y = js_add x (js_neg y)"

text \<open>Division: a finite non-zero number over zero is an infinity of the sign of the
  numerator, zero over zero is \<open>NaN\<close>, an infinity over an infinity is \<open>NaN\<close>.\<close>

fun js_div :: "jsnum \<Rightarrow> jsnum \<Rightarrow> jsnum" where
  "js_div NaN _ = NaN"
| "js_div _ NaN = NaN"
| "js_div (Num a) (Num b) =
     (if b = 0 then (if a = 0 then NaN else if 0 < a then PosInf else NegInf)
      else binary64 (a / b))"
| "js_div (Num a) PosInf = Num 0"
| "js_div (Num a) NegInf = Num 0"
| "js_div PosInf (Num b) = (if b < 0 then NegInf else PosInf)"
| "js_div NegInf (Num b) = (if b < 0 then PosInf else NegInf)"
| "js_div PosInf _ = NaN"
| "js_div NegInf _ = NaN"

text \<open>\<open>x > 0\<close> on numbers; every comparison with \<open>NaN\<close> is false.\<close>

fun js_gt0 :: "jsnum \<Rightarrow> bool" where
  "js_gt0 (Num a) = (0 < a)"
| "js_gt0 PosInf = True"
| "js_gt0 _ = False"

fun js_le0 :: "jsnum \<Rightarrow> bool" where
  "js_le0 (Num a) = (a \<le> 0)"
| "js_le0 NegInf = True"
| "js_le0 _ = False"

fun isFinite :: "jsnum \<Rightarrow> bool" where
  "isFinite (Num a) = True"
| "isFinite _ = False"

text \<open>Truthiness (\<open>ToBoolean\<close>): \<open>0\<close> and \<open>NaN\<close> are falsy, so are \<open>undefined\<close>,
  \<open>null\<close>, \<open>false\<close> and the empty string.\<close>

fun truthyNum :: "jsnum \<Rightarrow> bool" where
  "truthyNum (Num a) = (a \<noteq> 0)"
| "truthyNum NaN = False"
| "truthyNum _ = True"

fun truthy :: "jsval \<Rightarrow> bool" where
  "truthy Undefined = False"
| "truthy Null = False"
| "truthy (JBool b) = b"
| "truthy (JNum n) = truthyNum n"
| "truthy (JStr s) = (s \<noteq> [])"

text \<open>A form value read with \<open>watch\<close> is \<open>undefined\<close> until the field holds something.\<close>

definition truthyStr :: "string option \<Rightarrow> bool" where
  "truthyStr v = (case v of None \<Rightarrow> False | Some s \<Rightarrow> s \<noteq> [])"

definition truthyNumOpt :: "jsnum option \<Rightarrow> bool" where
  "truthyNumOpt v = (case v of None \<Rightarrow> False | Some n \<Rightarrow> truthyNum n)"

subsection \<open>\<open>Number.prototype.toFixed\<close>\<close>

text \<open>
  \<open>x.toFixed(2)\<close> of a finite \<open>x\<close> takes the integer \<open>n\<close> for which \<open>n / 100\<close> is
  closest to \<open>|x|\<close>, the larger one of two, and prints \<open>n / 100\<close> with the sign of \<open>x\<close>:
  rounding half away from zero, of the exact value of the double \<open>x\<close>. \<open>Number\<close> reads
  the digits back: the double nearest to \<open>n / 100\<close>. The non-finite values print as
  their names and are read back unchanged. From \<open>10^21\<close> on \<open>toFixed\<close> prints the
  number itself, and \<open>Number\<close> reads the same number back.
\<close>

definition roundHalfAway :: "nat \<Rightarrow> rat \<Rightarrow> rat" where
  "roundHalfAway f q =
     (if q < 0 then - (of_int \<lfloor>(- q) * 10 ^ f + 1 / 2\<rfloor> / 10 ^ f)
      else of_int \<lfloor>q * 10 ^ f + 1 / 2\<rfloor> / 10 ^ f)"

fun Number_toFixed :: "nat \<Rightarrow> jsnum \<Rightarrow> jsnum" where
  "Number_toFixed f (Num q) =
     (if 10 ^ 21 \<le> \<bar>q\<bar> then Num q else binary64 (roundHalfAway f q))"
| "Number_toFixed f x = x"

subsection \<open>Strings to numbers\<close>

text \<open>
  Strings are byte lists, so the white space recognised is the ASCII one (space, tab,
  line feed, vertical tab, form feed, carriage return). The value of a literal is
  rounded to binary64, as every engine does it.
\<close>

definition isWhiteSpace :: "char \<Rightarrow> bool" where
  "isWhiteSpace c = (c \<in> set [CHR '' '', CHR 0x09, CHR 0x0A, CHR 0x0B, CHR 0x0C, CHR 0x0D])"

definition trim :: "string \<Rightarrow> string" where
  "trim s = rev (dropWhile isWhiteSpace (rev (dropWhile isWhiteSpace s)))"

definition digitValue :: "char \<Rightarrow> nat option" where
  "digitValue c =
     (let n = (of_char c :: nat)
      in if 48 \<le> n \<and> n \<le> 57 then Some (n - 48)
         else if 97 \<le> n \<and> n \<le> 122 then Some (n - 87)
         else if 65 \<le> n \<and> n \<le> 90 then Some (n - 55)
         else None)"

definition isDigitIn :: "nat \<Rightarrow> char \<Rightarrow> bool" where
  "isDigitIn radix c = (case digitValue c of None \<Rightarrow> False | Some d \<Rightarrow> d < radix)"

definition digitsValue :: "nat \<Rightarrow> string \<Rightarrow> int" where
  "digitsValue radix ds =
     foldl (\<lambda>acc c. case digitValue c of None \<Rightarrow> acc | Some d \<Rightarrow> acc * int radix + int d)
       0 ds"

text \<open>The exponent part of a decimal literal: nothing, or \<open>e\<close>, an optional sign and
  at least one digit.\<close>

definition exponentPart :: "string \<Rightarrow> int option" where
  "exponentPart s =
     (case s of
        [] \<Rightarrow> Some 0
      | c # r \<Rightarrow>
          if c = CHR ''e'' \<or> c = CHR ''E'' then
            (let neg = (case r of x # _ \<Rightarrow> x = CHR ''-'' | [] \<Rightarrow> False);
                 ds = (case r of x # t \<Rightarrow> if x = CHR ''-'' \<or> x = CHR ''+'' then t else r
                       | [] \<Rightarrow> [])
             in if ds \<noteq> [] \<and> list_all (isDigitIn 10) ds
                then Some (if neg then - digitsValue 10 ds else digitsValue 10 ds)
                else None)
          else None)"

text \<open>An unsigned decimal literal: \<open>Infinity\<close>, or digits with an optional fraction
  and exponent, at least one digit before or after the point.\<close>

definition strUnsignedDecimal :: "string \<Rightarrow> jsnum" where
  "strUnsignedDecimal s =
     (if s = ''Infinity'' then PosInf
      else
        let ip = takeWhile (isDigitIn 10) s;
            r1 = dropWhile (isDigitIn 10) s;
            hasDot = (case r1 of c # _ \<Rightarrow> c = CHR ''.'' | [] \<Rightarrow> False);
            fp = (if hasDot then takeWhile (isDigitIn 10) (tl r1) else []);
            r2 = (if hasDot then dropWhile (isDigitIn 10) (tl r1) else r1)
        in if ip = [] \<and> fp = [] then NaN
           else
             (case exponentPart r2 of
                None \<Rightarrow> NaN
              | Some e \<Rightarrow>
                  let m = (of_int (digitsValue 10 (ip @ fp)) :: rat) / 10 ^ length fp
                  in binary64 (if 0 \<le> e then m * 10 ^ nat e else m / 10 ^ nat (- e))))"

definition radixLiteral :: "nat \<Rightarrow> string \<Rightarrow> jsnum" where
  "radixLiteral radix ds =
     (if ds \<noteq> [] \<and> list_all (isDigitIn radix) ds
      then binary64 (of_int (digitsValue radix ds))
      else NaN)"

text \<open>\<open>Number(s)\<close> for a string: white space is trimmed, the empty string is \<open>0\<close>, a
  hexadecimal, octal or binary literal takes no sign, anything that is not a numeric
  literal is \<open>NaN\<close>.\<close>

definition StringToNumber :: "string \<Rightarrow> jsnum" where
  "StringToNumber s =
     (let t = trim s
      in case t of
           [] \<Rightarrow> Num 0
         | c # r \<Rightarrow>
             if c = CHR ''+'' then strUnsignedDecimal r
             else if c = CHR ''-'' then js_neg (strUnsignedDecimal r)
             else
               (case r of
                  x # ds \<Rightarrow>
                    if c = CHR ''0'' \<and> (x = CHR ''x'' \<or> x = CHR ''X'') then radixLiteral 16 ds
                    else if c = CHR ''0'' \<and> (x = CHR ''o'' \<or> x = CHR ''O'') then radixLiteral 8 ds
                    else if c = CHR ''0'' \<and> (x = CHR ''b'' \<or> x = CHR ''B'') then radixLiteral 2 ds
                    else strUnsignedDecimal t
                | [] \<Rightarrow> strUnsignedDecimal t))"

text \<open>\<open>Number(v)\<close> for any value.\<close>

fun Number :: "jsval \<Rightarrow> jsnum" where
  "Number Undefined = NaN"
| "Number Null = Num 0"
| "Number (JBool b) = Num (if b then 1 else 0)"
| "Number (JNum n) = n"
| "Number (JStr s) = StringToNumber s"

text \<open>\<open>Boolean(v)\<close> is the truthiness of \<open>v\<close>.\<close>

definition Boolean :: "jsval \<Rightarrow> bool" where
  "Boolean v = truthy v"

text \<open>\<open>parseInt(s)\<close> with no radix: leading white space and a sign are skipped, \<open>0x\<close>
  selects radix 16, the longest run of digits is read and its value rounded to
  binary64, and no digit at all is \<open>NaN\<close>. An \<open>undefined\<close> argument is first printed as
  the string \<open>undefined\<close>.\<close>

definition parseIntStr :: "string \<Rightarrow> jsnum" where
  "parseIntStr s =
     (let t = dropWhile isWhiteSpace s;
          neg = (case t of c # _ \<Rightarrow> c = CHR ''-'' | [] \<Rightarrow> False);
          t1 = (case t of c # r \<Rightarrow> if c = CHR ''-'' \<or> c = CHR ''+'' then r else t | [] \<Rightarrow> t);
          hex = (case t1 of c # x # _ \<Rightarrow> c = CHR ''0'' \<and> (x = CHR ''x'' \<or> x = CHR ''X'')
                 | _ \<Rightarrow> False);
          radix = (if hex then 16 else 10);
          ds = takeWhile (isDigitIn radix) (if hex then drop 2 t1 else t1)
      in if ds = [] then NaN
         else binary64 (if neg then - of_int (digitsValue radix ds)
                        else of_int (digitsValue radix ds)))"

definition parseInt :: "string option \<Rightarrow> jsnum" where
  "parseInt v = (case v of None \<Rightarrow> parseIntStr ''undefined'' | Some s \<Rightarrow> parseIntStr s)"

section \<open>What both screens share\<close>

text \<open>
  The reference data. Of each interface the model keeps the fields the screens read:
  \<open>id\<close> and \<open>name\<close>, the identifier of a variation being optional.
\<close>

record IProduct =
  product_id :: nat
  product_name :: string

record IProductVariation =
  variation_id :: "nat option"
  variation_name :: string

text \<open>An awaited call of a collaborator either resolves with a value or rejects.\<close>

datatype 'a promise = Resolved 'a | Rejected

text \<open>
  What a screen does to the outside, in the order it does it: a toast, a callback of the
  host (\<open>onSave\<close>, \<open>onCancel\<close>), a call of a request hook, and the calls that change the
  screen itself (\<open>setValue\<close> and \<open>reset\<close> of the form, a state setter), each by the
  name the source gives it. The texts of the toasts are display strings, represented by
  one constructor each:
  \<^item> \<open>PricingSaved\<close>: the success toast of the pricing submit handler;
  \<^item> \<open>PricingNotSaved\<close>: its error toast, shown for a response of \<open>undefined\<close>;
  \<^item> \<open>PricingRequestFailed\<close>: the error toast of \<open>savePricing\<close> in the request hook;
  \<^item> \<open>IntegrationSaved\<close>, \<open>IntegrationNotSaved\<close>, \<open>IntegrationRequestFailed\<close>: the
    same three of the supplier-integration screen.
\<close>

datatype message =
    PricingSaved
  | PricingNotSaved
  | PricingRequestFailed
  | IntegrationSaved
  | IntegrationNotSaved
  | IntegrationRequestFailed

datatype event =
    ToastSuccess message
  | ToastError message
  | OnSave
  | OnCancel
  | FormReset
  | SetValue string
  | SetState string
  | Call string

text \<open>The values of the form as \<open>watch\<close> reads them. Both forms have a product and a
  variation; a field that holds nothing yet is \<open>undefined\<close>.\<close>

record ProductFormData =
  product :: "string option"
  productVariation :: "string option"

text \<open>The state both screens keep: the two reference lists, the form, and the trace of
  what the screen has done so far.\<close>

record 'f DetailsState =
  products :: "IProduct list"
  productVariations :: "IProductVariation list"
  form :: 'f
  events :: "event list"

definition strVal :: "string option \<Rightarrow> jsval" where
  "strVal v = (case v of None \<Rightarrow> Undefined | Some s \<Rightarrow> JStr s)"

text \<open>
  A number input is registered with \<open>valueAsNumber: true\<close>. The form library then hands
  on, instead of the string \<open>value\<close> of the element,
  \<open>value === '' ? NaN : value ? +value : value\<close>, and leaves \<open>undefined\<close> as it is: an
  empty field is \<open>NaN\<close>, any other content is the number it converts to.
\<close>

definition valueAsNumber :: "string option \<Rightarrow> jsval" where
  "valueAsNumber v =
     (case v of
        None \<Rightarrow> Undefined
      | Some s \<Rightarrow> if s = [] then JNum NaN else JNum (StringToNumber s))"

section \<open>The pricing screen: \<open>PricingDetails\<close>\<close>

text \<open>
  The commission ruleset of a sale platform. The four fields are the ones the
  calculator reads, each through \<open>Number(field || 0)\<close>, so each may hold any value.
\<close>

record ISalePlatformCommission =
  commissionPercentage :: jsval
  costPerItemSold :: jsval
  defaultProfitPercentage :: jsval
  additionalProfit :: jsval

text \<open>Of a saved pricing record the screen keeps the identifier for the next save.\<close>

record IPricing =
  pricing_id :: nat

record PricingFormData = ProductFormData +
  salePlatform :: "string option"
  costPrice :: "jsnum option"
  salePrice :: "jsnum option"

text \<open>The properties of the component: the two callbacks are optional, and so is the
  identifier of the record to edit.\<close>

record PricingDetailsProps =
  onCancel :: bool
  pricingId :: "nat option"
  onSave :: bool

record PricingDetailsState = "PricingFormData DetailsState" +
  isLoading :: bool
  pricing :: "IPricing option"
  salePlatformCommissions :: "ISalePlatformCommission list"
  salePlatformCommission :: "ISalePlatformCommission option"

text \<open>\<open>reset()\<close> with no default values leaves every field \<open>undefined\<close>.\<close>

definition resetPricingForm :: PricingFormData where
  "resetPricingForm =
     \<lparr>product = None, productVariation = None, salePlatform = None,
      costPrice = None, salePrice = None\<rparr>"

subsection \<open>The calculator\<close>

text \<open>\<open>product && productVariation && salePlatform && costPrice\<close>, read for its
  truthiness.\<close>

definition isAllFieldsFilled :: "PricingFormData \<Rightarrow> bool" where
  "isAllFieldsFilled f =
     (truthyStr (product f) \<and> truthyStr (productVariation f) \<and> truthyStr (salePlatform f)
      \<and> truthyNumOpt (costPrice f))"

text \<open>\<open>Number(v || 0)\<close>.\<close>

definition numberOr0 :: "jsval \<Rightarrow> jsnum" where
  "numberOr0 v = Number (if truthy v then v else JNum (Num 0))"

definition calculatedSalePrice :: "PricingDetailsState \<Rightarrow> jsnum" where
  "calculatedSalePrice st =
     (case salePlatformCommission st of
        None \<Rightarrow> Num 0
      | Some c \<Rightarrow>
          (case costPrice (form st) of
             None \<Rightarrow> Num 0
           | Some cp \<Rightarrow>
               if \<not> isAllFieldsFilled (form st) then Num 0
               else
                 let ap = numberOr0 (additionalProfit c);
                     cpis = numberOr0 (costPerItemSold c);
                     dpp = numberOr0 (defaultProfitPercentage c);
                     cpc = numberOr0 (commissionPercentage c);
                     costs = js_add (js_add cp ap) cpis;
                     profitPercentage = js_div (js_sub (Num 100) (js_add dpp cpc)) (Num 100)
                 in Number_toFixed 2 (js_div costs profitPercentage)))"

text \<open>The effect that writes the computed price into the form.\<close>

definition salePriceEffect :: "PricingDetailsState \<Rightarrow> PricingDetailsState" where
  "salePriceEffect st =
     (if isAllFieldsFilled (form st) \<and> salePlatformCommission st \<noteq> None then
        st\<lparr>isLoading := False,
           form := (form st)\<lparr>salePrice := Some (calculatedSalePrice st)\<rparr>,
           events := events st @ [SetState ''setIsLoading'', SetValue ''salePrice'',
                                  SetState ''setIsLoading'']\<rparr>
      else st)"

subsection \<open>The dependent selections\<close>

text \<open>
  An effect is modelled as run to completion: the awaited call has resolved or rejected
  by the time the next thing happens. The collaborator is a parameter, a function from
  the argument of the call to its outcome.
\<close>

definition salePlatformId :: "PricingDetailsState \<Rightarrow> jsnum" where
  "salePlatformId st = parseInt (salePlatform (form st))"

definition loadSalePlatformCommission ::
  "(jsnum \<Rightarrow> ISalePlatformCommission option promise) \<Rightarrow> PricingDetailsState
   \<Rightarrow> PricingDetailsState" where
  "loadSalePlatformCommission getSalePlatformCommissionByPlatformId st =
     (if truthyNum (salePlatformId st) then
        (case getSalePlatformCommissionByPlatformId (salePlatformId st) of
           Resolved (Some d) \<Rightarrow>
             st\<lparr>salePlatformCommission := Some d,
                events := events st @ [Call ''getSalePlatformCommissionByPlatformId'',
                                       SetState ''setSalePlatformCommission'']\<rparr>
         | Resolved None \<Rightarrow>
             st\<lparr>events := events st @ [Call ''getSalePlatformCommissionByPlatformId'']\<rparr>
         | Rejected \<Rightarrow>
             st\<lparr>events := events st @ [Call ''getSalePlatformCommissionByPlatformId'']\<rparr>)
      else
        st\<lparr>salePlatformCommission := None,
           events := events st @ [SetState ''setSalePlatformCommission'']\<rparr>)"

text \<open>The effect on \<open>salePlatformId\<close>: the loader runs under the guard
  \<open>if (salePlatformId)\<close>.\<close>

definition salePlatformCommissionEffect ::
  "(jsnum \<Rightarrow> ISalePlatformCommission option promise) \<Rightarrow> PricingDetailsState
   \<Rightarrow> PricingDetailsState" where
  "salePlatformCommissionEffect getSalePlatformCommissionByPlatformId st =
     (if truthyNum (salePlatformId st)
      then loadSalePlatformCommission getSalePlatformCommissionByPlatformId st
      else st)"

text \<open>The effect on \<open>productId\<close>.\<close>

definition loadProductVariations ::
  "(jsnum \<Rightarrow> IProductVariation list promise) \<Rightarrow> PricingDetailsState \<Rightarrow> PricingDetailsState"
  where
  "loadProductVariations getProductVariations st =
     (if truthyStr (product (form st)) \<and> product (form st) \<noteq> Some [] then
        (case getProductVariations (parseInt (product (form st))) of
           Resolved response \<Rightarrow>
             st\<lparr>productVariations := response,
                events := events st @ [Call ''getProductVariations'',
                                       SetState ''setProductVariations'']\<rparr>
         | Rejected \<Rightarrow> st\<lparr>events := events st @ [Call ''getProductVariations'']\<rparr>)
      else st)"

text \<open>
  The user picks a value in a select: the registered field takes it, the component
  renders again, and the effect that depends on the field runs.
\<close>

definition selectProduct ::
  "(jsnum \<Rightarrow> IProductVariation list promise) \<Rightarrow> string \<Rightarrow> PricingDetailsState
   \<Rightarrow> PricingDetailsState" where
  "selectProduct getProductVariations v st =
     loadProductVariations getProductVariations (st\<lparr>form := (form st)\<lparr>product := Some v\<rparr>\<rparr>)"

definition selectSalePlatform ::
  "(jsnum \<Rightarrow> ISalePlatformCommission option promise) \<Rightarrow> string \<Rightarrow> PricingDetailsState
   \<Rightarrow> PricingDetailsState" where
  "selectSalePlatform getSalePlatformCommissionByPlatformId v st =
     salePlatformCommissionEffect getSalePlatformCommissionByPlatformId
       (st\<lparr>form := (form st)\<lparr>salePlatform := Some v\<rparr>\<rparr>)"

subsection \<open>Cancel and submit\<close>

definition handleCancel :: "PricingDetailsProps \<Rightarrow> PricingDetailsState \<Rightarrow> PricingDetailsState"
  where
  "handleCancel props st =
     st\<lparr>pricing := None,
        products := [],
        productVariations := [],
        salePlatformCommissions := [],
        form := resetPricingForm,
        events := events st
          @ [SetState ''setPricing'', SetState ''setProducts'',
             SetState ''setProductVariations'', SetState ''setSalePlatformCommissions'',
             FormReset]
          @ (if onCancel props then [OnCancel] else [])\<rparr>"

text \<open>The payloads of the two save calls share the two identifiers. A payload field
  carries the suffix \<open>_p\<close>, the form having a field of the same name.\<close>

record ProductPayload =
  productId_p :: jsnum
  productVariationId_p :: jsnum

record IPricingInsert = ProductPayload +
  salePlatformId_p :: jsnum
  costPrice_p :: "jsnum option"
  salePrice_p :: "jsnum option"

definition pricingPayload :: "PricingDetailsState \<Rightarrow> PricingFormData \<Rightarrow> IPricingInsert" where
  "pricingPayload st data =
     \<lparr>productId_p = parseInt (product (form st)),
      productVariationId_p = parseInt (productVariation (form st)),
      salePlatformId_p = parseInt (salePlatform data),
      costPrice_p = costPrice data,
      salePrice_p = salePrice data\<rparr>"

text \<open>
  \<open>savePricing\<close> of the request hook: the response of \<open>request\<close> is handed on; when
  \<open>request\<close> rejects, the hook shows a toast and throws again. The hook returns the
  outcome and the toasts it showed. A response is \<open>undefined\<close> or a record.
\<close>

definition savePricing ::
  "(IPricingInsert \<Rightarrow> nat option \<Rightarrow> IPricing option promise) \<Rightarrow> IPricingInsert \<Rightarrow> nat option
   \<Rightarrow> IPricing option promise \<times> event list" where
  "savePricing request pricing_arg id_arg =
     (case request pricing_arg id_arg of
        Resolved response \<Rightarrow> (Resolved response, [])
      | Rejected \<Rightarrow> (Rejected, [ToastError PricingRequestFailed]))"

text \<open>How a handler ends: it returns, or an error leaves it (the \<open>catch\<close> of the
  submit handler throws a new error).\<close>

datatype outcome = Returned | Thrown

definition onSubmit ::
  "(IPricingInsert \<Rightarrow> nat option \<Rightarrow> IPricing option promise) \<Rightarrow> PricingDetailsProps
   \<Rightarrow> PricingFormData \<Rightarrow> PricingDetailsState \<Rightarrow> outcome \<times> PricingDetailsState" where
  "onSubmit request props data st =
     (case savePricing request (pricingPayload st data) (map_option pricing_id (pricing st)) of
        (saved, toasts) \<Rightarrow>
          let st1 = st\<lparr>events := events st @ [Call ''savePricing''] @ toasts\<rparr>
          in (case saved of
                Resolved (Some response) \<Rightarrow>
                  let st2 = st1\<lparr>events := events st1 @ (if onSave props then [OnSave] else [])\<rparr>;
                      st3 = handleCancel props st2
                  in (Returned,
                      st3\<lparr>form := resetPricingForm,
                          events := events st3 @ [ToastSuccess PricingSaved, FormReset]\<rparr>)
              | Resolved None \<Rightarrow>
                  (Returned, st1\<lparr>events := events st1 @ [ToastError PricingNotSaved]\<rparr>)
              | Rejected \<Rightarrow> (Thrown, st1)))"

section \<open>The supplier-integration screen: \<open>IntegrationProductSupplierErpDetails\<close>\<close>

text \<open>What this screen names as the pricing screen does carries the suffix \<open>_erp\<close>.\<close>

record ISupplier =
  supplier_id :: "nat option"
  tradeName :: string

record IIntegrationProductSupplier =
  integration_id :: nat

record IntegrationFormData = ProductFormData +
  supplierId :: "string option"
  supplierPrice :: "jsnum option"
  supplierProductCode :: "string option"
  inStockInTheSupplier :: "string option"
  supplierProductLink :: "string option"
  blingProductId :: "jsnum option"

record IntegrationDetailsState = "IntegrationFormData DetailsState" +
  integrationProductSupplierErp :: "IIntegrationProductSupplier option"
  suppliers :: "ISupplier list"

definition resetIntegrationForm :: IntegrationFormData where
  "resetIntegrationForm =
     \<lparr>product = None, productVariation = None, supplierId = None, supplierPrice = None,
      supplierProductCode = None, inStockInTheSupplier = None, supplierProductLink = None,
      blingProductId = None\<rparr>"

subsection \<open>The dependent selection\<close>

definition loadProductVariations_erp ::
  "(jsnum \<Rightarrow> IProductVariation list promise) \<Rightarrow> IntegrationDetailsState
   \<Rightarrow> IntegrationDetailsState" where
  "loadProductVariations_erp getProductVariations st =
     (case getProductVariations (parseInt (product (form st))) of
        Resolved response \<Rightarrow>
          st\<lparr>productVariations := response,
             events := events st @ [Call ''getProductVariations'',
                                    SetState ''setProductVariations'']\<rparr>
      | Rejected \<Rightarrow> st\<lparr>events := events st @ [Call ''getProductVariations'']\<rparr>)"

text \<open>The effect on \<open>productId\<close>: the variation is set to the empty string, then the
  list is loaded.\<close>

definition productEffect_erp ::
  "(jsnum \<Rightarrow> IProductVariation list promise) \<Rightarrow> IntegrationDetailsState
   \<Rightarrow> IntegrationDetailsState" where
  "productEffect_erp getProductVariations st =
     (if truthyStr (product (form st)) \<and> product (form st) \<noteq> Some [] then
        loadProductVariations_erp getProductVariations
          (st\<lparr>form := (form st)\<lparr>productVariation := Some []\<rparr>,
              events := events st @ [SetValue ''productVariation'']\<rparr>)
      else st)"

definition selectProduct_erp ::
  "(jsnum \<Rightarrow> IProductVariation list promise) \<Rightarrow> string \<Rightarrow> IntegrationDetailsState
   \<Rightarrow> IntegrationDetailsState" where
  "selectProduct_erp getProductVariations v st =
     productEffect_erp getProductVariations (st\<lparr>form := (form st)\<lparr>product := Some v\<rparr>\<rparr>)"

subsection \<open>Cancel and submit\<close>

text \<open>Both callbacks are required properties of this component.\<close>

definition handleCancel_erp :: "IntegrationDetailsState \<Rightarrow> IntegrationDetailsState" where
  "handleCancel_erp st =
     st\<lparr>integrationProductSupplierErp := None,
        products := [],
        productVariations := [],
        form := resetIntegrationForm,
        events := events st
          @ [SetState ''setIntegrationProductSupplierErp'', SetState ''setProducts'',
             SetState ''setProductVariations'', FormReset, OnCancel]\<rparr>"

record IIntegrationProductSupplierInsert = ProductPayload +
  supplierId_p :: jsnum
  supplierPrice_p :: "jsnum option"
  supplierProductCode_p :: "string option"
  inStockInTheSupplier_p :: bool
  supplierProductLink_p :: "string option"
  blingProductId_p :: "jsnum option"

text \<open>\<open>v || undefined\<close>.\<close>

definition strOrUndefined :: "string option \<Rightarrow> string option" where
  "strOrUndefined v = (if truthyStr v then v else None)"

definition numOrUndefined :: "jsnum option \<Rightarrow> jsnum option" where
  "numOrUndefined v = (if truthyNumOpt v then v else None)"

definition integrationPayload ::
  "IntegrationDetailsState \<Rightarrow> IntegrationFormData \<Rightarrow> IIntegrationProductSupplierInsert" where
  "integrationPayload st data =
     \<lparr>productId_p = parseInt (product (form st)),
      productVariationId_p = parseInt (productVariation (form st)),
      supplierId_p = parseInt (supplierId data),
      supplierPrice_p = supplierPrice data,
      supplierProductCode_p = supplierProductCode data,
      inStockInTheSupplier_p = Boolean (JNum (Number (strVal (inStockInTheSupplier data)))),
      supplierProductLink_p = strOrUndefined (supplierProductLink data),
      blingProductId_p = numOrUndefined (blingProductId data)\<rparr>"

text \<open>
  Modelled from the spec: the request hook \<open>useIntegrationProductSupplierErpRequests\<close>
  is not among the source files. The spec gives the save call the shape of the one
  of the pricing screen (a record, or \<open>undefined\<close> for a failure) and has every failing
  collaborator call caught where it is issued, turned into one notification and thrown
  again; \<open>saveIntegrationProductSupplierErp\<close> is \<open>savePricing\<close> with the names changed.
\<close>

definition saveIntegrationProductSupplierErp ::
  "(IIntegrationProductSupplierInsert \<Rightarrow> nat option \<Rightarrow> IIntegrationProductSupplier option promise)
   \<Rightarrow> IIntegrationProductSupplierInsert \<Rightarrow> nat option
   \<Rightarrow> IIntegrationProductSupplier option promise \<times> event list" where
  "saveIntegrationProductSupplierErp request integration_arg id_arg =
     (case request integration_arg id_arg of
        Resolved response \<Rightarrow> (Resolved response, [])
      | Rejected \<Rightarrow> (Rejected, [ToastError IntegrationRequestFailed]))"

definition onSubmit_erp ::
  "(IIntegrationProductSupplierInsert \<Rightarrow> nat option \<Rightarrow> IIntegrationProductSupplier option promise)
   \<Rightarrow> IntegrationFormData \<Rightarrow> IntegrationDetailsState \<Rightarrow> outcome \<times> IntegrationDetailsState"
  where
  "onSubmit_erp request data st =
     (case saveIntegrationProductSupplierErp request (integrationPayload st data)
             (map_option integration_id (integrationProductSupplierErp st)) of
        (saved, toasts) \<Rightarrow>
          let st1 = st\<lparr>events := events st @ [Call ''saveIntegrationProductSupplierErp'']
                                  @ toasts\<rparr>
          in (case saved of
                Resolved (Some response) \<Rightarrow>
                  let st2 = st1\<lparr>events := events st1 @ [OnSave]\<rparr>;
                      st3 = handleCancel_erp st2
                  in (Returned,
                      st3\<lparr>form := resetIntegrationForm,
                          events := events st3 @ [ToastSuccess IntegrationSaved, FormReset]\<rparr>)
              | Resolved None \<Rightarrow>
                  (Returned, st1\<lparr>events := events st1 @ [ToastError IntegrationNotSaved]\<rparr>)
              | Rejected \<Rightarrow> (Thrown, st1)))"

section \<open>The validation schemas\<close>

text \<open>
  The schemas are built with the validation library the screens import. Its parts are
  modelled as the library (major version 3, whose \<open>required_error\<close> and
  \<open>invalid_type_error\<close> parameters the schemas use) runs them: \<open>z.number\<close> takes a
  value of type number that is not \<open>NaN\<close>, and takes the infinities, since no
  \<open>finite\<close> check is added; \<open>positive\<close> refuses a number \<open>\<le> 0\<close>; \<open>z.preprocess\<close>
  applies its function first. The messages are display strings, one constructor each:
  the \<open>message\<close> of \<open>z.number\<close> and the \<open>message\<close> of \<open>positive\<close> of the cost
  price (the supplier price repeats both), the two of the sale price, and the
  \<open>message\<close> of \<open>z.number\<close> of \<open>blingProductId\<close>.
\<close>

datatype fieldMessage =
    CostPriceMustBeNumber
  | CostPriceMustBePositive
  | SalePriceMustBeNumber
  | SalePriceMustBePositive
  | BlingProductIdMustBeNumber

definition z_number :: "fieldMessage \<Rightarrow> jsval \<Rightarrow> fieldMessage + jsnum" where
  "z_number msg v =
     (case v of JNum n \<Rightarrow> (if n = NaN then Inl msg else Inr n) | _ \<Rightarrow> Inl msg)"

definition positive :: "fieldMessage \<Rightarrow> jsnum \<Rightarrow> fieldMessage + jsnum" where
  "positive msg n = (if js_le0 n then Inl msg else Inr n)"

definition z_number_positive :: "fieldMessage \<Rightarrow> fieldMessage \<Rightarrow> jsval \<Rightarrow> fieldMessage + jsnum"
  where
  "z_number_positive numberMsg positiveMsg v =
     (case z_number numberMsg v of Inl e \<Rightarrow> Inl e | Inr n \<Rightarrow> positive positiveMsg n)"

definition preprocess :: "(jsval \<Rightarrow> jsval) \<Rightarrow> (jsval \<Rightarrow> 'e + 'a) \<Rightarrow> jsval \<Rightarrow> 'e + 'a" where
  "preprocess f schema v = schema (f v)"

text \<open>The two price fields of the pricing schema.\<close>

definition schema_costPrice :: "jsval \<Rightarrow> fieldMessage + jsnum" where
  "schema_costPrice =
     preprocess (\<lambda>value. JNum (Number value))
       (z_number_positive CostPriceMustBeNumber CostPriceMustBePositive)"

definition schema_salePrice :: "jsval \<Rightarrow> fieldMessage + jsnum" where
  "schema_salePrice =
     preprocess (\<lambda>value. JNum (Number value))
       (z_number_positive SalePriceMustBeNumber SalePriceMustBePositive)"

text \<open>The price field and the catalogue identifier of the supplier-integration
  schema; the price field shows the messages of the cost price.\<close>

definition schema_supplierPrice :: "jsval \<Rightarrow> fieldMessage + jsnum" where
  "schema_supplierPrice =
     preprocess (\<lambda>value. JNum (Number value))
       (z_number_positive CostPriceMustBeNumber CostPriceMustBePositive)"

definition schema_blingProductId :: "jsval \<Rightarrow> fieldMessage + jsnum" where
  "schema_blingProductId =
     preprocess (\<lambda>value. JNum (Number value)) (z_number BlingProductIdMustBeNumber)"

section \<open>Example inputs\<close>

text \<open>The commission ruleset and the screen state of the worked example of the pricing
  rules: cost price 100, additional profit 5, cost per item sold 2. The profit and the
  commission percentage are left open.\<close>

definition exampleCommission :: "rat \<Rightarrow> rat \<Rightarrow> ISalePlatformCommission" where
  "exampleCommission dpp cpc =
     \<lparr>commissionPercentage = JNum (Num cpc), costPerItemSold = JNum (Num 2),
      defaultProfitPercentage = JNum (Num dpp), additionalProfit = JNum (Num 5)\<rparr>"

text \<open>A collaborator that knows two products: product 1 with two variations, product 2
  with one.\<close>

definition exampleVariations :: "jsnum \<Rightarrow> IProductVariation list promise" where
  "exampleVariations n =
     (if n = Num 1 then
        Resolved [\<lparr>variation_id = Some 11, variation_name = ''small''\<rparr>,
                  \<lparr>variation_id = Some 12, variation_name = ''large''\<rparr>]
      else if n = Num 2 then Resolved [\<lparr>variation_id = Some 21, variation_name = ''only''\<rparr>]
      else Resolved [])"

definition examplePricing :: "rat \<Rightarrow> rat \<Rightarrow> PricingDetailsState" where
  "examplePricing dpp cpc =
     \<lparr>products = [\<lparr>product_id = 1, product_name = ''first''\<rparr>,
                  \<lparr>product_id = 2, product_name = ''second''\<rparr>],
      productVariations = [\<lparr>variation_id = Some 11, variation_name = ''small''\<rparr>,
                           \<lparr>variation_id = Some 12, variation_name = ''large''\<rparr>],
      form = \<lparr>product = Some ''1'', productVariation = Some ''11'', salePlatform = Some ''3'',
              costPrice = Some (Num 100), salePrice = None\<rparr>,
      events = [],
      isLoading = False, pricing = None,
      salePlatformCommissions = [exampleCommission dpp cpc],
      salePlatformCommission = Some (exampleCommission dpp cpc)\<rparr>"

definition exampleProps :: PricingDetailsProps where
  "exampleProps = \<lparr>onCancel = True, pricingId = None, onSave = True\<rparr>"

text \<open>The same screen with the cost price 100.01 typed into the field and the
  percentages 50 and 10: costs of 107.01 over a profit factor of 0.4, a quotient of
  267.525 in decimal figures.\<close>

definition examplePricingTie :: PricingDetailsState where
  "examplePricingTie =
     (examplePricing 50 10)
       \<lparr>form := (form (examplePricing 50 10))\<lparr>costPrice := Some (StringToNumber ''100.01'')\<rparr>\<rparr>"

definition exampleIntegrationForm :: IntegrationFormData where
  "exampleIntegrationForm =
     \<lparr>product = Some ''1'', productVariation = Some ''11'', supplierId = Some ''7'',
      supplierPrice = Some (Num 40), supplierProductCode = Some ''X-1'',
      inStockInTheSupplier = Some ''1'', supplierProductLink = Some [],
      blingProductId = Some (Num 0)\<rparr>"

definition exampleIntegration :: IntegrationDetailsState where
  "exampleIntegration =
     \<lparr>products = [\<lparr>product_id = 1, product_name = ''first''\<rparr>,
                  \<lparr>product_id = 2, product_name = ''second''\<rparr>],
      productVariations = [\<lparr>variation_id = Some 11, variation_name = ''small''\<rparr>,
                           \<lparr>variation_id = Some 12, variation_name = ''large''\<rparr>],
      form = exampleIntegrationForm,
      events = [],
      integrationProductSupplierErp = None,
      suppliers = [\<lparr>supplier_id = Some 7, tradeName = ''supplier''\<rparr>]\<rparr>"

text \<open>Counting the notifications in a trace.\<close>

fun isToastSuccess :: "event \<Rightarrow> bool" where
  "isToastSuccess (ToastSuccess m) = True"
| "isToastSuccess _ = False"

fun isToastError :: "event \<Rightarrow> bool" where
  "isToastError (ToastError m) = True"
| "isToastError _ = False"

text \<open>Outcomes of the save request of each screen: a record, \<open>undefined\<close>, a
  rejection.\<close>

definition requestSaved :: "IPricingInsert \<Rightarrow> nat option \<Rightarrow> IPricing option promise" where
  "requestSaved p i = Resolved (Some \<lparr>pricing_id = 5\<rparr>)"

definition requestUndefined :: "IPricingInsert \<Rightarrow> nat option \<Rightarrow> IPricing option promise" where
  "requestUndefined p i = Resolved None"

definition requestSaved_erp ::
  "IIntegrationProductSupplierInsert \<Rightarrow> nat option \<Rightarrow> IIntegrationProductSupplier option promise"
  where
  "requestSaved_erp p i = Resolved (Some \<lparr>integration_id = 9\<rparr>)"

definition requestRejected_erp ::
  "IIntegrationProductSupplierInsert \<Rightarrow> nat option \<Rightarrow> IIntegrationProductSupplier option promise"
  where
  "requestRejected_erp p i = Rejected"

text \<open>What a handler added to the trace.\<close>

definition newEvents :: "event list \<Rightarrow> event list \<Rightarrow> event list" where
  "newEvents before after = drop (length before) after"

section \<open>Facts about the JavaScript values\<close>

lemma js_add_Num: "js_add (Num a) (Num b) = binary64 (a + b)"
  by simp

lemma js_sub_Num: "js_sub (Num a) (Num b) = binary64 (a - b)"
  by (simp add: js_sub_def)

lemma js_div_Num: "b \<noteq> 0 \<Longrightarrow> js_div (Num a) (Num b) = binary64 (a / b)"
  by simp

lemma js_gt0_iff: "js_gt0 n \<longleftrightarrow> n \<noteq> NaN \<and> \<not> js_le0 n"
  by (cases n) auto

lemma StringToNumber_empty: "StringToNumber [] = Num 0"
  by (simp add: StringToNumber_def trim_def)

lemma StringToNumber_0: "StringToNumber ''0'' = Num 0"
  by code_simp

lemma StringToNumber_1: "StringToNumber ''1'' = Num 1"
  by code_simp

subsection \<open>The rounding\<close>

text \<open>A result that is not positive stays so; \<open>2^1024\<close> and beyond is an infinity; up
  to half the least subnormal, \<open>2^(-1075)\<close>, is zero.\<close>

lemma bitlen_nonneg: "0 \<le> bitlen n"
proof (induction n rule: bitlen.induct)
  case (1 n)
  then show ?case by (subst bitlen.simps) auto
qed

lemma bitlen_ge: "2 ^ k \<le> n \<Longrightarrow> int k + 1 \<le> bitlen n"
proof (induction k arbitrary: n)
  case 0
  then have "0 < n" by simp
  then have "bitlen n = 1 + bitlen (n div 2)" by (subst bitlen.simps) simp
  with bitlen_nonneg [of "n div 2"] show ?case by simp
next
  case (Suc k)
  then have "2 ^ k \<le> n div 2" by simp
  then have "int k + 1 \<le> bitlen (n div 2)" by (rule Suc.IH)
  moreover have "(0::int) < 2 ^ Suc k" by simp
  then have "0 < n" using Suc.prems by (rule less_le_trans)
  then have "bitlen n = 1 + bitlen (n div 2)" by (subst bitlen.simps) simp
  ultimately show ?case by simp
qed

lemma pow2_pos: "0 < pow2 k"
  by (simp add: pow2_def)

lemma roundHalfEven_nonneg: "0 \<le> m \<Longrightarrow> 0 \<le> roundHalfEven m"
  by (auto simp: roundHalfEven_def Let_def)

lemma binary64_nonpos:
  assumes "q \<le> 0" and "binary64 q = Num r"
  shows "r \<le> 0"
proof (cases "q = 0")
  case True
  with assms show ?thesis by (simp add: binary64_def)
next
  case False
  with assms have neg: "q < 0" by simp
  define e where "e = max (ilog2 \<bar>q\<bar>) (- 1022)"
  have "0 \<le> roundHalfEven (\<bar>q\<bar> / pow2 (e - 52))"
    by (rule roundHalfEven_nonneg) (simp add: pow2_pos less_imp_le)
  then have "0 \<le> of_int (roundHalfEven (\<bar>q\<bar> / pow2 (e - 52))) * pow2 (e - 52)"
    by (simp add: pow2_pos less_imp_le)
  with assms neg False show ?thesis
    by (auto simp: binary64_def Let_def e_def split: if_splits)
qed

lemma binary64_overflow:
  assumes "2 ^ 1024 \<le> \<bar>q\<bar>"
  shows "binary64 q = (if q < 0 then NegInf else PosInf)"
proof -
  have nz: "q \<noteq> 0" using assms by auto
  have one: "1 \<le> \<bar>q\<bar>"
    using assms by (rule order_trans [rotated]) simp
  have "(2::int) ^ 1024 \<le> \<lfloor>\<bar>q\<bar>\<rfloor>"
    using assms by (simp add: le_floor_iff)
  then have "int 1024 + 1 \<le> bitlen \<lfloor>\<bar>q\<bar>\<rfloor>" by (rule bitlen_ge)
  then have "1023 < ilog2 \<bar>q\<bar>" using one by (simp add: ilog2_def)
  then show ?thesis using nz by (simp add: binary64_def Let_def)
qed

lemma binary64_underflow:
  assumes "\<bar>q\<bar> \<le> 1 / 2 ^ 1075"
  shows "binary64 q = Num 0"
proof (cases "q = 0")
  case True
  then show ?thesis by (simp add: binary64_def)
next
  case False
  define a where "a = \<bar>q\<bar>"
  have pos: "0 < a" using False by (simp add: a_def)
  have small: "a \<le> 1 / 2 ^ 1075" using assms by (simp add: a_def)
  have lt1: "\<not> 1 \<le> a"
  proof
    assume "1 \<le> a"
    with small have "(1::rat) \<le> 1 / 2 ^ 1075" by simp
    then show False by simp
  qed
  have "2 ^ 1075 \<le> 1 / a"
    using pos small by (simp add: field_simps)
  then have "(2::rat) ^ 1075 \<le> of_int \<lceil>1 / a\<rceil>"
    by (rule order_trans) (rule le_of_int_ceiling)
  then have "(2::int) ^ 1075 \<le> \<lceil>1 / a\<rceil>"
    by (metis of_int_le_iff of_int_numeral of_int_power)
  then have "(2::int) ^ 1074 \<le> \<lceil>1 / a\<rceil> - 1" by simp
  then have "int 1074 + 1 \<le> bitlen (\<lceil>1 / a\<rceil> - 1)" by (rule bitlen_ge)
  then have "ilog2 a \<le> - 1022" using lt1 by (simp add: ilog2_def)
  then have e: "max (ilog2 a) (- 1022) = - 1022" by simp
  have ulp: "pow2 (- 1074) = 1 / 2 ^ 1074" by (simp add: pow2_def)
  define m where "m = a / (1 / 2 ^ 1074)"
  have m0: "0 \<le> m" using pos by (simp add: m_def)
  have mhalf: "m \<le> 1 / 2" using small by (simp add: m_def field_simps)
  have fl: "\<lfloor>m\<rfloor> = 0" using m0 mhalf by (simp add: floor_eq_iff)
  have "roundHalfEven m = 0"
    using mhalf by (simp add: roundHalfEven_def Let_def fl)
  then have "roundHalfEven (a / pow2 (- 1074)) = 0"
    by (simp only: ulp m_def)
  then show ?thesis
    using False by (simp add: binary64_def Let_def a_def [symmetric] e)
qed

lemma binary64_range_examples:
  "binary64 (1 / 10 ^ 400) = Num 0"
  "binary64 (10 ^ 400) = PosInf"
  "js_add (Num (2 ^ 1023)) (Num (2 ^ 1023)) = PosInf"
  using binary64_underflow [of "1 / 10 ^ 400"] binary64_overflow [of "10 ^ 400"]
    binary64_overflow [of "2 ^ 1023 + 2 ^ 1023"]
  by simp_all

lemma StringToNumber_range_examples:
  "StringToNumber ''1e-400'' = Num 0"
  "StringToNumber ''1e400'' = PosInf"
proof -
  have "StringToNumber ''1e-400'' = binary64 (1 / 10 ^ 400)"
    by (simp add: StringToNumber_def trim_def isWhiteSpace_def strUnsignedDecimal_def
        isDigitIn_def digitValue_def digitsValue_def exponentPart_def Let_def)
  then show "StringToNumber ''1e-400'' = Num 0"
    by (simp only: binary64_range_examples)
  have "StringToNumber ''1e400'' = binary64 (10 ^ 400)"
    by (simp add: StringToNumber_def trim_def isWhiteSpace_def strUnsignedDecimal_def
        isDigitIn_def digitValue_def digitsValue_def exponentPart_def Let_def)
  then show "StringToNumber ''1e400'' = PosInf"
    by (simp only: binary64_range_examples)
qed

text \<open>The rounding at some doubles and between them: one tenth and seven tenths, a tie
  that goes down to the even neighbour and one that goes up.\<close>

lemma binary64_examples:
  "binary64 (1 / 10) = Num (3602879701896397 / 36028797018963968)"
  "binary64 (7 / 10) = Num (3152519739159347 / 4503599627370496)"
  "binary64 (2 ^ 53 + 1) = Num (2 ^ 53)"
  "binary64 (2 ^ 53 + 3) = Num (2 ^ 53 + 4)"
  "binary64 (- 5 / 2) = Num (- 5 / 2)"
  by code_simp+

section \<open>The pricing calculator\<close>

lemma calculatedSalePrice_filled:
  assumes "isAllFieldsFilled (form st)"
    and "salePlatformCommission st = Some c"
    and "costPrice (form st) = Some cp"
  shows "calculatedSalePrice st =
           Number_toFixed 2
             (js_div (js_add (js_add cp (numberOr0 (additionalProfit c)))
                        (numberOr0 (costPerItemSold c)))
                (js_div (js_sub (Num 100)
                           (js_add (numberOr0 (defaultProfitPercentage c))
                              (numberOr0 (commissionPercentage c))))
                   (Num 100)))"
  using assms by (simp add: calculatedSalePrice_def Let_def)

text \<open>The calculator on finite values, each operation rounded: the costs are
  \<open>(costPrice + additionalProfit) + costPerItemSold\<close>, the profit factor is
  \<open>(100 - (defaultProfitPercentage + commissionPercentage)) / 100\<close>.\<close>

lemma calculatedSalePrice_steps:
  assumes filled: "isAllFieldsFilled (form st)"
    and loaded: "salePlatformCommission st = Some c"
    and cp: "costPrice (form st) = Some (Num cp)"
    and ap: "numberOr0 (additionalProfit c) = Num ap"
    and cpis: "numberOr0 (costPerItemSold c) = Num cpis"
    and dpp: "numberOr0 (defaultProfitPercentage c) = Num dpp"
    and cpc: "numberOr0 (commissionPercentage c) = Num cpc"
    and partial: "binary64 (cp + ap) = Num partial"
    and costs: "binary64 (partial + cpis) = Num costs"
    and percentages: "binary64 (dpp + cpc) = Num percentages"
    and remainder: "binary64 (100 - percentages) = Num remainder"
    and factor: "binary64 (remainder / 100) = Num profitFactor"
  shows "calculatedSalePrice st = Number_toFixed 2 (js_div (Num costs) (Num profitFactor))"
proof -
  have c: "js_add (js_add (Num cp) (Num ap)) (Num cpis) = Num costs"
    by (simp only: js_add_Num partial costs)
  have "js_sub (Num 100) (js_add (Num dpp) (Num cpc)) = Num remainder"
    by (simp only: js_add_Num js_sub_Num percentages remainder)
  then have f: "js_div (js_sub (Num 100) (js_add (Num dpp) (Num cpc))) (Num 100)
                  = Num profitFactor"
    by (simp add: factor)
  show ?thesis
    unfolding calculatedSalePrice_filled [OF filled loaded cp] ap cpis dpp cpc c f ..
qed

lemma examplePricing_filled: "isAllFieldsFilled (form (examplePricing d c))"
  by (simp add: examplePricing_def isAllFieldsFilled_def truthyStr_def truthyNumOpt_def)

lemma examplePricing_loaded:
  "salePlatformCommission (examplePricing d c) = Some (exampleCommission d c)"
  by (simp add: examplePricing_def)

lemma examplePricing_costPrice: "costPrice (form (examplePricing d c)) = Some (Num 100)"
  by (simp add: examplePricing_def)

lemma exampleCommission_numbers:
  "numberOr0 (additionalProfit (exampleCommission d c)) = Num 5"
  "numberOr0 (costPerItemSold (exampleCommission d c)) = Num 2"
  "numberOr0 (defaultProfitPercentage (exampleCommission d c)) = Num d"
  "numberOr0 (commissionPercentage (exampleCommission d c)) = Num c"
  by (simp_all add: exampleCommission_def numberOr0_def)

lemma example_costs:
  "binary64 (100 + 5) = Num 105"
  "binary64 (105 + 2) = Num 107"
  by code_simp+

text \<open>
  C1, as the code has it. When product, variation, platform and cost price are present,
  the commission ruleset is loaded and the profit factor is positive, the calculator
  returns what \<open>toFixed(2)\<close> makes of the binary64 quotient of the costs and the profit
  factor, every sum, difference and quotient on the way being rounded to binary64: the
  quotient \<open>q\<close> the program computes, rounded to two decimals half away from zero and
  read back as a number (below \<open>10^21\<close>). The witness is the worked example: 100, 5, 2,
  20 and 10 give the number 152.86.
\<close>

theorem calculatedSalePrice_formula:
  assumes filled: "isAllFieldsFilled (form st)"
    and loaded: "salePlatformCommission st = Some c"
    and cp: "costPrice (form st) = Some (Num cp)"
    and ap: "numberOr0 (additionalProfit c) = Num ap"
    and cpis: "numberOr0 (costPerItemSold c) = Num cpis"
    and dpp: "numberOr0 (defaultProfitPercentage c) = Num dpp"
    and cpc: "numberOr0 (commissionPercentage c) = Num cpc"
    and partial: "binary64 (cp + ap) = Num partial"
    and costs: "binary64 (partial + cpis) = Num costs"
    and percentages: "binary64 (dpp + cpc) = Num percentages"
    and remainder: "binary64 (100 - percentages) = Num remainder"
    and factor: "binary64 (remainder / 100) = Num profitFactor"
    and pos: "0 < profitFactor"
  shows "calculatedSalePrice st = Number_toFixed 2 (binary64 (costs / profitFactor))
         \<and> (\<forall>q. binary64 (costs / profitFactor) = Num q \<longrightarrow> \<bar>q\<bar> < 10 ^ 21 \<longrightarrow>
               calculatedSalePrice st = binary64 (roundHalfAway 2 q))"
proof -
  have nz: "profitFactor \<noteq> 0" using pos by simp
  have "calculatedSalePrice st = Number_toFixed 2 (js_div (Num costs) (Num profitFactor))"
    by (rule calculatedSalePrice_steps
          [OF filled loaded cp ap cpis dpp cpc partial costs percentages remainder factor])
  then have first: "calculatedSalePrice st = Number_toFixed 2 (binary64 (costs / profitFactor))"
    by (simp only: js_div_Num [OF nz])
  have "calculatedSalePrice st = binary64 (roundHalfAway 2 q)"
    if "binary64 (costs / profitFactor) = Num q" and "\<bar>q\<bar> < 10 ^ 21" for q
    using first that by simp
  with first show ?thesis by blast
qed

theorem calculatedSalePrice_formula_witness:
  "isAllFieldsFilled (form (examplePricing 20 10))
   \<and> salePlatformCommission (examplePricing 20 10) = Some (exampleCommission 20 10)
   \<and> costPrice (form (examplePricing 20 10)) = Some (Num 100)
   \<and> binary64 (20 + 10) = Num 30
   \<and> binary64 (100 - 30) = Num 70
   \<and> binary64 (70 / 100) = Num (3152519739159347 / 4503599627370496)
   \<and> (0::rat) < 3152519739159347 / 4503599627370496
   \<and> binary64 (107 / (3152519739159347 / 4503599627370496))
       = Num (5378182590721463 / 35184372088832)
   \<and> roundHalfAway 2 (5378182590721463 / 35184372088832) = 15286 / 100
   \<and> calculatedSalePrice (examplePricing 20 10) = binary64 (15286 / 100)
   \<and> calculatedSalePrice (examplePricing 20 10) = StringToNumber ''152.86''"
proof -
  have p: "binary64 (20 + 10) = Num 30" by code_simp
  have r: "binary64 (100 - 30) = Num 70" by code_simp
  have f: "binary64 (70 / 100) = Num (3152519739159347 / 4503599627370496)" by code_simp
  have pos: "(0::rat) < 3152519739159347 / 4503599627370496" by simp
  have q: "binary64 (107 / (3152519739159347 / 4503599627370496))
             = Num (5378182590721463 / 35184372088832)" by code_simp
  have small: "\<bar>5378182590721463 / 35184372088832 :: rat\<bar> < 10 ^ 21" by simp
  have h: "roundHalfAway 2 (5378182590721463 / 35184372088832) = 15286 / 100" by code_simp
  have n: "StringToNumber ''152.86'' = binary64 (15286 / 100)" by code_simp
  from calculatedSalePrice_formula
         [OF examplePricing_filled examplePricing_loaded examplePricing_costPrice
             exampleCommission_numbers example_costs p r f pos]
  have "calculatedSalePrice (examplePricing 20 10)
          = binary64 (roundHalfAway 2 (5378182590721463 / 35184372088832))"
    using q small by blast
  then have v: "calculatedSalePrice (examplePricing 20 10) = binary64 (15286 / 100)"
    by (simp only: h)
  from v p r f pos q h n show ?thesis
    by (simp only: examplePricing_filled examplePricing_loaded examplePricing_costPrice
        simp_thms)
qed

text \<open>
  C1 as stated fails. With the cost price 100.01 and the percentages 50 and 10 the costs
  are 107.01 and the profit factor is 0.4: the quotient is 267.525 in decimal figures,
  267.53 when rounded half away from zero, and the same 267.53 comes out of the exact
  value of the double 100.01. The program divides by the double 0.4 and gets a double
  just below 267.525, which \<open>toFixed(2)\<close> prints as 267.52.
\<close>

theorem calculatedSalePrice_tie_counterexample:
  "isAllFieldsFilled (form examplePricingTie)
   \<and> salePlatformCommission examplePricingTie = Some (exampleCommission 50 10)
   \<and> costPrice (form examplePricingTie) = Some (Num (7037578105208177 / 70368744177664))
   \<and> calculatedSalePrice examplePricingTie = StringToNumber ''267.52''
   \<and> roundHalfAway 2 ((10001 / 100 + 5 + 2) / ((100 - (50 + 10)) / 100)) = 26753 / 100
   \<and> roundHalfAway 2
        ((7037578105208177 / 70368744177664 + 5 + 2) / ((100 - (50 + 10)) / 100))
       = 26753 / 100
   \<and> StringToNumber ''267.52'' \<noteq> StringToNumber ''267.53''"
  by code_simp

text \<open>
  C2, as the code has it. The calculator has no error to signal. With all fields filled
  and the ruleset loaded, a sum of the two percentages of 100 or more makes the profit
  factor zero or negative. A negative profit factor gives what \<open>toFixed(2)\<close> makes of
  the binary64 quotient of the costs and that factor, a number; a profit factor of 0
  gives the division by zero: \<open>Infinity\<close> for positive costs, \<open>-Infinity\<close> for negative
  costs, \<open>NaN\<close> for costs of zero. The effect writes that value into the sale-price
  field.
\<close>

theorem calculatedSalePrice_factor_not_positive:
  assumes filled: "isAllFieldsFilled (form st)"
    and loaded: "salePlatformCommission st = Some c"
    and cp: "costPrice (form st) = Some (Num cp)"
    and ap: "numberOr0 (additionalProfit c) = Num ap"
    and cpis: "numberOr0 (costPerItemSold c) = Num cpis"
    and dpp: "numberOr0 (defaultProfitPercentage c) = Num dpp"
    and cpc: "numberOr0 (commissionPercentage c) = Num cpc"
    and partial: "binary64 (cp + ap) = Num partial"
    and costs: "binary64 (partial + cpis) = Num costs"
    and percentages: "binary64 (dpp + cpc) = Num percentages"
    and remainder: "binary64 (100 - percentages) = Num remainder"
    and factor: "binary64 (remainder / 100) = Num profitFactor"
    and sum: "100 \<le> percentages"
  shows "profitFactor \<le> 0
         \<and> calculatedSalePrice st =
           (if profitFactor = 0 then
              (if costs = 0 then NaN else if 0 < costs then PosInf else NegInf)
            else Number_toFixed 2 (binary64 (costs / profitFactor)))
         \<and> salePrice (form (salePriceEffect st)) = Some (calculatedSalePrice st)"
proof -
  have "remainder \<le> 0"
    using sum by (intro binary64_nonpos [OF _ remainder]) simp
  then have nonpos: "profitFactor \<le> 0"
    by (intro binary64_nonpos [OF _ factor]) (simp add: divide_nonpos_nonneg)
  have "calculatedSalePrice st = Number_toFixed 2 (js_div (Num costs) (Num profitFactor))"
    by (rule calculatedSalePrice_steps
          [OF filled loaded cp ap cpis dpp cpc partial costs percentages remainder factor])
  then have first: "calculatedSalePrice st =
      (if profitFactor = 0 then
         (if costs = 0 then NaN else if 0 < costs then PosInf else NegInf)
       else Number_toFixed 2 (binary64 (costs / profitFactor)))"
    by simp
  have second: "salePrice (form (salePriceEffect st)) = Some (calculatedSalePrice st)"
    using filled loaded by (simp add: salePriceEffect_def)
  from nonpos first second show ?thesis by simp
qed

theorem calculatedSalePrice_factor_not_positive_witness:
  "isAllFieldsFilled (form (examplePricing 20 90))
   \<and> salePlatformCommission (examplePricing 20 90) = Some (exampleCommission 20 90)
   \<and> binary64 (20 + 90) = Num 110
   \<and> (100::rat) \<le> 110
   \<and> binary64 (100 - 110) = Num (- 10)
   \<and> binary64 (- 10 / 100) = Num (- (3602879701896397 / 36028797018963968))
   \<and> calculatedSalePrice (examplePricing 20 90) = Num (- 1070)
   \<and> salePrice (form (salePriceEffect (examplePricing 20 90))) = Some (Num (- 1070))"
proof -
  have p: "binary64 (20 + 90) = Num 110" by code_simp
  have r: "binary64 (100 - 110) = Num (- 10)" by code_simp
  have f: "binary64 (- 10 / 100) = Num (- (3602879701896397 / 36028797018963968))"
    by code_simp
  have sum: "(100::rat) \<le> 110" by simp
  have ne: "- (3602879701896397 / 36028797018963968) \<noteq> (0::rat)" by simp
  have q: "Number_toFixed 2 (binary64 (107 / - (3602879701896397 / 36028797018963968)))
             = Num (- 1070)" by code_simp
  note inst = calculatedSalePrice_factor_not_positive
          [OF examplePricing_filled examplePricing_loaded examplePricing_costPrice
              exampleCommission_numbers example_costs p r f sum]
  from inst have v: "calculatedSalePrice (examplePricing 20 90) = Num (- 1070)"
    by (simp only: ne if_False q)
  from inst v have w:
    "salePrice (form (salePriceEffect (examplePricing 20 90))) = Some (Num (- 1070))"
    by simp
  from v w p r f sum show ?thesis
    by (simp only: examplePricing_filled examplePricing_loaded simp_thms)
qed

text \<open>
  C2 as stated fails. With the percentages 20 and 90 of the example that should raise
  the error, the calculator returns the number -1070; with 20 and 80 the profit factor
  is 0 and the effect writes \<open>Infinity\<close> into the sale-price field.
\<close>

theorem calculator_signals_no_error_counterexample:
  "calculatedSalePrice (examplePricing 20 90) = Num (- 1070)
   \<and> salePrice (form (salePriceEffect (examplePricing 20 80))) = Some PosInf"
  by code_simp

text \<open>
  C4. When a precondition fails (product, variation, platform or cost price missing, or
  no commission ruleset loaded) the calculator yields 0 and the effect leaves the
  screen as it is: the sale-price field is written only with all fields filled and the
  ruleset loaded.
\<close>

theorem calculator_not_ready:
  assumes "\<not> truthyStr (product (form st)) \<or> \<not> truthyStr (productVariation (form st))
           \<or> \<not> truthyStr (salePlatform (form st)) \<or> \<not> truthyNumOpt (costPrice (form st))
           \<or> salePlatformCommission st = None"
  shows "calculatedSalePrice st = Num 0 \<and> salePriceEffect st = st"
  using assms
  by (auto simp: calculatedSalePrice_def salePriceEffect_def isAllFieldsFilled_def
           split: option.splits)

theorem calculator_not_ready_witness:
  "salePlatformCommission ((examplePricing 20 10)\<lparr>salePlatformCommission := None\<rparr>) = None
   \<and> calculatedSalePrice ((examplePricing 20 10)\<lparr>salePlatformCommission := None\<rparr>) = Num 0
   \<and> salePriceEffect ((examplePricing 20 10)\<lparr>salePlatformCommission := None\<rparr>)
       = (examplePricing 20 10)\<lparr>salePlatformCommission := None\<rparr>"
  using calculator_not_ready [of "(examplePricing 20 10)\<lparr>salePlatformCommission := None\<rparr>"]
  by simp

section \<open>The dependent selections\<close>

lemma selectProduct_erp_clears:
  assumes "v \<noteq> []" and "getProductVariations (parseInt (Some v)) = Resolved response"
  shows "form (selectProduct_erp getProductVariations v st)
           = (form st)\<lparr>product := Some v, productVariation := Some []\<rparr>
         \<and> productVariations (selectProduct_erp getProductVariations v st) = response
         \<and> events (selectProduct_erp getProductVariations v st)
           = events st @ [SetValue ''productVariation'', Call ''getProductVariations'',
                          SetState ''setProductVariations'']"
  using assms
  by (simp add: selectProduct_erp_def productEffect_erp_def loadProductVariations_erp_def
      truthyStr_def)

lemma selectProduct_replaces_list:
  assumes "v \<noteq> []" and "getProductVariations (parseInt (Some v)) = Resolved response"
  shows "productVariations (selectProduct getProductVariations v st) = response
         \<and> productVariation (form (selectProduct getProductVariations v st))
           = productVariation (form st)"
  using assms
  by (simp add: selectProduct_def loadProductVariations_def truthyStr_def)

text \<open>
  C3. On the supplier-integration screen a change of the product sets the variation to
  the empty string before the list of the new product is loaded
  (\<open>selectProduct_erp_clears\<close>). On the pricing screen the list is replaced and the
  variation selected under the old product stays: with variation 11 of product 1
  selected, the choice of product 2 leaves variation 11 in the form beside the list of
  product 2, and a submit sends product 2 with variation 11.
\<close>

theorem pricing_selectProduct_keeps_variation:
  "productVariation (form (selectProduct exampleVariations ''2'' (examplePricing 20 10)))
     = Some ''11''
   \<and> productVariations (selectProduct exampleVariations ''2'' (examplePricing 20 10))
     = [\<lparr>variation_id = Some 21, variation_name = ''only''\<rparr>]
   \<and> events (selectProduct exampleVariations ''2'' (examplePricing 20 10))
     = [Call ''getProductVariations'', SetState ''setProductVariations'']
   \<and> productId_p (pricingPayload (selectProduct exampleVariations ''2'' (examplePricing 20 10))
        (form (selectProduct exampleVariations ''2'' (examplePricing 20 10)))) = Num 2
   \<and> productVariationId_p
        (pricingPayload (selectProduct exampleVariations ''2'' (examplePricing 20 10))
        (form (selectProduct exampleVariations ''2'' (examplePricing 20 10)))) = Num 11"
  by code_simp

text \<open>
  C5. The pricing screen can hold a stale commission ruleset. When the platform
  selection becomes empty the effect does nothing, its clearing branch lying under the
  guard \<open>if (salePlatformId)\<close>; and \<open>handleCancel\<close> clears the record, the three lists
  and the form, not the loaded ruleset.
\<close>

theorem pricing_keeps_stale_commission:
  "salePlatformCommission
     (selectSalePlatform getSalePlatformCommissionByPlatformId [] (examplePricing 20 10))
     = Some (exampleCommission 20 10)
   \<and> salePlatform (form
       (selectSalePlatform getSalePlatformCommissionByPlatformId [] (examplePricing 20 10)))
     = Some []
   \<and> salePlatformCommission (handleCancel exampleProps (examplePricing 20 10))
     = Some (exampleCommission 20 10)
   \<and> form (handleCancel exampleProps (examplePricing 20 10)) = resetPricingForm"
proof -
  have nan: "parseInt (Some []) = NaN" by code_simp
  have "salePlatformId ((examplePricing 20 10)
          \<lparr>form := (form (examplePricing 20 10))\<lparr>salePlatform := Some []\<rparr>\<rparr>) = NaN"
    by (simp add: salePlatformId_def nan)
  then have sel: "selectSalePlatform getSalePlatformCommissionByPlatformId [] (examplePricing 20 10)
      = (examplePricing 20 10)\<lparr>form := (form (examplePricing 20 10))\<lparr>salePlatform := Some []\<rparr>\<rparr>"
    by (simp add: selectSalePlatform_def salePlatformCommissionEffect_def)
  show ?thesis
    unfolding sel by (simp add: handleCancel_def examplePricing_def)
qed

section \<open>The payload of the supplier-integration form\<close>

text \<open>
  C6. In the payload \<open>inStockInTheSupplier\<close> is the truthiness of the number the
  validated string converts to: \<open>"0"\<close> gives \<open>false\<close>, \<open>"1"\<close> gives \<open>true\<close>.
\<close>

theorem inStockInTheSupplier_payload:
  "inStockInTheSupplier_p (integrationPayload st (data\<lparr>inStockInTheSupplier := Some s\<rparr>))
     = truthyNum (StringToNumber s)
   \<and> inStockInTheSupplier_p (integrationPayload st (data\<lparr>inStockInTheSupplier := Some ''0''\<rparr>))
     = False
   \<and> inStockInTheSupplier_p (integrationPayload st (data\<lparr>inStockInTheSupplier := Some ''1''\<rparr>))
     = True"
  by (simp add: integrationPayload_def Boolean_def strVal_def StringToNumber_0 StringToNumber_1)

text \<open>
  C10, as the code has it. The schema of \<open>blingProductId\<close> takes every input whose
  \<open>Number\<close> is not \<open>NaN\<close>, the empty string among them (\<open>Number("")\<close> is 0), and
  refuses the others with its one message. The form hands the field on as a number
  (\<open>valueAsNumber\<close>), so an empty field arrives as \<open>NaN\<close> and is refused: in the form the
  field is required. At submit a falsy validated value, that is 0, becomes \<open>undefined\<close>
  in the payload, so the payload never carries a \<open>blingProductId\<close> of 0.
\<close>

theorem blingProductId_validation_and_payload:
  "schema_blingProductId v
     = (if Number v = NaN then Inl BlingProductIdMustBeNumber else Inr (Number v))
   \<and> schema_blingProductId (JStr []) = Inr (Num 0)
   \<and> schema_blingProductId (valueAsNumber (Some [])) = Inl BlingProductIdMustBeNumber
   \<and> schema_blingProductId (valueAsNumber None) = Inl BlingProductIdMustBeNumber
   \<and> blingProductId_p (integrationPayload st data)
     = (if truthyNumOpt (blingProductId data) then blingProductId data else None)
   \<and> blingProductId_p (integrationPayload st (data\<lparr>blingProductId := Some (Num 0)\<rparr>)) = None
   \<and> blingProductId_p (integrationPayload st data) \<noteq> Some (Num 0)"
  by (auto simp: schema_blingProductId_def preprocess_def z_number_def StringToNumber_empty
      valueAsNumber_def integrationPayload_def numOrUndefined_def truthyNumOpt_def)

text \<open>
  C10 as stated fails. The field does not behave as optional: left empty, or never
  touched, it reaches the schema as \<open>NaN\<close> or \<open>undefined\<close> and is refused with the
  "must be a number" message, so the form cannot be submitted without it.
\<close>

theorem blingProductId_empty_field_refused_counterexample:
  "schema_blingProductId (valueAsNumber (Some [])) = Inl BlingProductIdMustBeNumber
   \<and> schema_blingProductId (valueAsNumber None) = Inl BlingProductIdMustBeNumber"
  by code_simp

section \<open>The price fields of the schemas\<close>

lemma z_number_positive_Number:
  "z_number_positive numberMsg positiveMsg (JNum n)
     = (if n = NaN then Inl numberMsg else if js_le0 n then Inl positiveMsg else Inr n)"
  by (simp add: z_number_positive_def z_number_def positive_def)

text \<open>
  C9, as the code has it. Each price field is coerced with \<open>Number\<close>; \<open>NaN\<close> gets the
  "must be a number" message, a number \<open>\<le> 0\<close> (with \<open>-Infinity\<close>) the "must be
  positive" message, and every other number is accepted: the accepted inputs are those
  whose number is greater than 0, \<open>Infinity\<close> among them.
\<close>

theorem price_fields_validation:
  "schema_costPrice v
     = (if Number v = NaN then Inl CostPriceMustBeNumber
        else if js_le0 (Number v) then Inl CostPriceMustBePositive else Inr (Number v))
   \<and> schema_salePrice v
     = (if Number v = NaN then Inl SalePriceMustBeNumber
        else if js_le0 (Number v) then Inl SalePriceMustBePositive else Inr (Number v))
   \<and> schema_supplierPrice v
     = (if Number v = NaN then Inl CostPriceMustBeNumber
        else if js_le0 (Number v) then Inl CostPriceMustBePositive else Inr (Number v))
   \<and> (\<not> isl (schema_costPrice v)) = js_gt0 (Number v)
   \<and> (\<not> isl (schema_salePrice v)) = js_gt0 (Number v)
   \<and> (\<not> isl (schema_supplierPrice v)) = js_gt0 (Number v)"
  by (simp add: schema_costPrice_def schema_salePrice_def schema_supplierPrice_def
      preprocess_def z_number_positive_Number js_gt0_iff)

text \<open>
  C9 as stated fails. The infinite sale price that the calculator yields for a profit
  factor of 0 passes the schema of the sale price, and the string \<open>Infinity\<close> passes
  the schemas of the cost price and of the supplier price: accepted, and not finite.
\<close>

theorem price_field_accepts_infinity_counterexample:
  "schema_salePrice (JNum PosInf) = Inr PosInf
   \<and> schema_costPrice (JStr ''Infinity'') = Inr PosInf
   \<and> schema_supplierPrice (JStr ''Infinity'') = Inr PosInf
   \<and> \<not> isFinite PosInf"
  by code_simp

section \<open>Submit\<close>

lemma onSubmit_failed:
  assumes "request (pricingPayload st data) (map_option pricing_id (pricing st)) = Resolved None
           \<or> request (pricingPayload st data) (map_option pricing_id (pricing st)) = Rejected"
  shows "onSubmit request props data st =
           (if request (pricingPayload st data) (map_option pricing_id (pricing st)) = Rejected
            then Thrown else Returned,
            st\<lparr>events := events st @ [Call ''savePricing'',
               ToastError
                 (if request (pricingPayload st data) (map_option pricing_id (pricing st))
                     = Rejected
                  then PricingRequestFailed else PricingNotSaved)]\<rparr>)"
  using assms by (auto simp: onSubmit_def savePricing_def)

lemma onSubmit_erp_failed:
  assumes "request (integrationPayload st data)
             (map_option integration_id (integrationProductSupplierErp st)) = Resolved None
           \<or> request (integrationPayload st data)
             (map_option integration_id (integrationProductSupplierErp st)) = Rejected"
  shows "onSubmit_erp request data st =
           (if request (integrationPayload st data)
                 (map_option integration_id (integrationProductSupplierErp st)) = Rejected
            then Thrown else Returned,
            st\<lparr>events := events st @ [Call ''saveIntegrationProductSupplierErp'',
               ToastError
                 (if request (integrationPayload st data)
                       (map_option integration_id (integrationProductSupplierErp st)) = Rejected
                  then IntegrationRequestFailed else IntegrationNotSaved)]\<rparr>)"
  using assms by (auto simp: onSubmit_erp_def saveIntegrationProductSupplierErp_def)

lemma onSubmit_saved:
  assumes "request (pricingPayload st data) (map_option pricing_id (pricing st))
             = Resolved (Some response)"
  shows "onSubmit request props data st =
           (Returned,
            st\<lparr>pricing := None, products := [], productVariations := [],
               salePlatformCommissions := [], form := resetPricingForm,
               events := events st @ [Call ''savePricing'']
                 @ (if onSave props then [OnSave] else [])
                 @ [SetState ''setPricing'', SetState ''setProducts'',
                    SetState ''setProductVariations'', SetState ''setSalePlatformCommissions'',
                    FormReset]
                 @ (if onCancel props then [OnCancel] else [])
                 @ [ToastSuccess PricingSaved, FormReset]\<rparr>)"
  using assms by (simp add: onSubmit_def savePricing_def handleCancel_def Let_def)

lemma onSubmit_erp_saved:
  assumes "request (integrationPayload st data)
             (map_option integration_id (integrationProductSupplierErp st))
             = Resolved (Some response)"
  shows "onSubmit_erp request data st =
           (Returned,
            st\<lparr>integrationProductSupplierErp := None, products := [], productVariations := [],
               form := resetIntegrationForm,
               events := events st
                 @ [Call ''saveIntegrationProductSupplierErp'', OnSave,
                    SetState ''setIntegrationProductSupplierErp'', SetState ''setProducts'',
                    SetState ''setProductVariations'', FormReset, OnCancel,
                    ToastSuccess IntegrationSaved, FormReset]\<rparr>)"
  using assms
  by (simp add: onSubmit_erp_def saveIntegrationProductSupplierErp_def handleCancel_erp_def
      Let_def)

text \<open>
  C7. When the save call fails, by a response of \<open>undefined\<close> or by a rejection, the
  submit handler of either screen leaves the screen as it was but for the trace, which
  gains the call and exactly one failure toast: no reset of the form, no setter, no
  callback. After a rejection the toast is the one of the request hook and the handler
  ends with a thrown error.
\<close>

theorem failed_save_keeps_draft:
  assumes pricing_fails:
      "request (pricingPayload st data) (map_option pricing_id (pricing st)) = Resolved None
       \<or> request (pricingPayload st data) (map_option pricing_id (pricing st)) = Rejected"
    and integration_fails:
      "request_erp (integrationPayload st_erp data_erp)
         (map_option integration_id (integrationProductSupplierErp st_erp)) = Resolved None
       \<or> request_erp (integrationPayload st_erp data_erp)
         (map_option integration_id (integrationProductSupplierErp st_erp)) = Rejected"
  shows "snd (onSubmit request props data st)
           = st\<lparr>events := events st @ [Call ''savePricing'',
               ToastError
                 (if request (pricingPayload st data) (map_option pricing_id (pricing st))
                     = Rejected
                  then PricingRequestFailed else PricingNotSaved)]\<rparr>
         \<and> form (snd (onSubmit request props data st)) = form st
         \<and> length (filter isToastError
              (newEvents (events st) (events (snd (onSubmit request props data st))))) = 1
         \<and> snd (onSubmit_erp request_erp data_erp st_erp)
           = st_erp\<lparr>events := events st_erp @ [Call ''saveIntegrationProductSupplierErp'',
               ToastError
                 (if request_erp (integrationPayload st_erp data_erp)
                       (map_option integration_id (integrationProductSupplierErp st_erp))
                     = Rejected
                  then IntegrationRequestFailed else IntegrationNotSaved)]\<rparr>
         \<and> form (snd (onSubmit_erp request_erp data_erp st_erp)) = form st_erp
         \<and> length (filter isToastError
              (newEvents (events st_erp)
                 (events (snd (onSubmit_erp request_erp data_erp st_erp))))) = 1"
  unfolding onSubmit_failed [where request = request and st = st and data = data, OF pricing_fails]
    onSubmit_erp_failed [where request = request_erp and st = st_erp and data = data_erp,
      OF integration_fails]
  by (simp add: newEvents_def)

theorem failed_save_keeps_draft_witness:
  "requestUndefined (pricingPayload (examplePricing 20 10) (form (examplePricing 20 10)))
       (map_option pricing_id (pricing (examplePricing 20 10))) = Resolved None
   \<and> requestRejected_erp (integrationPayload exampleIntegration exampleIntegrationForm)
       (map_option integration_id (integrationProductSupplierErp exampleIntegration)) = Rejected
   \<and> snd (onSubmit requestUndefined exampleProps (form (examplePricing 20 10))
            (examplePricing 20 10))
       = (examplePricing 20 10)\<lparr>events := [Call ''savePricing'', ToastError PricingNotSaved]\<rparr>
   \<and> snd (onSubmit_erp requestRejected_erp exampleIntegrationForm exampleIntegration)
       = exampleIntegration\<lparr>events := [Call ''saveIntegrationProductSupplierErp'',
                                        ToastError IntegrationRequestFailed]\<rparr>"
proof -
  have a: "requestUndefined (pricingPayload (examplePricing 20 10) (form (examplePricing 20 10)))
       (map_option pricing_id (pricing (examplePricing 20 10))) = Resolved None"
    by (simp add: requestUndefined_def)
  have b: "requestRejected_erp (integrationPayload exampleIntegration exampleIntegrationForm)
       (map_option integration_id (integrationProductSupplierErp exampleIntegration)) = Rejected"
    by (simp add: requestRejected_erp_def)
  have c: "events (examplePricing 20 10) = []" "events exampleIntegration = []"
    by (simp_all add: examplePricing_def exampleIntegration_def)
  from failed_save_keeps_draft [where request = requestUndefined
      and st = "examplePricing 20 10" and data = "form (examplePricing 20 10)"
      and request_erp = requestRejected_erp and st_erp = exampleIntegration
      and data_erp = exampleIntegrationForm and props = exampleProps, OF disjI1 disjI2, OF a b]
  show ?thesis
    by (simp add: a b c)
qed

text \<open>
  C8, as the code has it. When the save call succeeds the submit handler invokes the
  completion callback (on the pricing screen, if the host gave one), then runs
  \<open>handleCancel\<close>, which clears the loaded record, the product list, the variation
  list, on the pricing screen the list of platform commissions, and the form, and
  invokes the cancel callback; then it shows exactly one success toast and resets the
  form once more.
\<close>

theorem successful_save_effects:
  assumes pricing_saved:
      "request (pricingPayload st data) (map_option pricing_id (pricing st))
         = Resolved (Some response)"
    and integration_saved:
      "request_erp (integrationPayload st_erp data_erp)
         (map_option integration_id (integrationProductSupplierErp st_erp))
         = Resolved (Some response_erp)"
  shows "newEvents (events st) (events (snd (onSubmit request props data st)))
           = [Call ''savePricing'']
             @ (if onSave props then [OnSave] else [])
             @ [SetState ''setPricing'', SetState ''setProducts'',
                SetState ''setProductVariations'', SetState ''setSalePlatformCommissions'',
                FormReset]
             @ (if onCancel props then [OnCancel] else [])
             @ [ToastSuccess PricingSaved, FormReset]
         \<and> length (filter isToastSuccess
              (newEvents (events st) (events (snd (onSubmit request props data st))))) = 1
         \<and> pricing (snd (onSubmit request props data st)) = None
         \<and> products (snd (onSubmit request props data st)) = []
         \<and> productVariations (snd (onSubmit request props data st)) = []
         \<and> salePlatformCommissions (snd (onSubmit request props data st)) = []
         \<and> form (snd (onSubmit request props data st)) = resetPricingForm
         \<and> newEvents (events st_erp) (events (snd (onSubmit_erp request_erp data_erp st_erp)))
           = [Call ''saveIntegrationProductSupplierErp'', OnSave,
              SetState ''setIntegrationProductSupplierErp'', SetState ''setProducts'',
              SetState ''setProductVariations'', FormReset, OnCancel,
              ToastSuccess IntegrationSaved, FormReset]
         \<and> integrationProductSupplierErp (snd (onSubmit_erp request_erp data_erp st_erp)) = None
         \<and> products (snd (onSubmit_erp request_erp data_erp st_erp)) = []
         \<and> productVariations (snd (onSubmit_erp request_erp data_erp st_erp)) = []
         \<and> form (snd (onSubmit_erp request_erp data_erp st_erp)) = resetIntegrationForm"
  unfolding onSubmit_saved [where request = request and st = st and data = data, OF pricing_saved]
    onSubmit_erp_saved [where request = request_erp and st = st_erp and data = data_erp,
      OF integration_saved]
  by (simp add: newEvents_def)

theorem successful_save_effects_witness:
  "requestSaved (pricingPayload (examplePricing 20 10) (form (examplePricing 20 10)))
       (map_option pricing_id (pricing (examplePricing 20 10)))
     = Resolved (Some \<lparr>pricing_id = 5\<rparr>)
   \<and> requestSaved_erp (integrationPayload exampleIntegration exampleIntegrationForm)
       (map_option integration_id (integrationProductSupplierErp exampleIntegration))
     = Resolved (Some \<lparr>integration_id = 9\<rparr>)
   \<and> newEvents (events (examplePricing 20 10))
       (events (snd (onSubmit requestSaved exampleProps (form (examplePricing 20 10))
                       (examplePricing 20 10))))
     = [Call ''savePricing'', OnSave, SetState ''setPricing'', SetState ''setProducts'',
        SetState ''setProductVariations'', SetState ''setSalePlatformCommissions'',
        FormReset, OnCancel, ToastSuccess PricingSaved, FormReset]
   \<and> form (snd (onSubmit_erp requestSaved_erp exampleIntegrationForm exampleIntegration))
     = resetIntegrationForm"
proof -
  have a: "requestSaved (pricingPayload (examplePricing 20 10) (form (examplePricing 20 10)))
       (map_option pricing_id (pricing (examplePricing 20 10)))
     = Resolved (Some \<lparr>pricing_id = 5\<rparr>)"
    by (simp add: requestSaved_def)
  have b: "requestSaved_erp (integrationPayload exampleIntegration exampleIntegrationForm)
       (map_option integration_id (integrationProductSupplierErp exampleIntegration))
     = Resolved (Some \<lparr>integration_id = 9\<rparr>)"
    by (simp add: requestSaved_erp_def)
  from successful_save_effects [where request = requestSaved
      and st = "examplePricing 20 10" and data = "form (examplePricing 20 10)"
      and request_erp = requestSaved_erp and st_erp = exampleIntegration
      and data_erp = exampleIntegrationForm and props = exampleProps, OF a b]
  show ?thesis
    by (simp add: a b exampleProps_def)
qed

text \<open>
  C8 as stated fails. In the trace of a successful submit of either screen the success
  toast comes after the completion callback and after the state reset, not before them.
\<close>

theorem success_toast_after_callback_counterexample:
  "events (snd (onSubmit requestSaved exampleProps (form (examplePricing 20 10))
                  (examplePricing 20 10)))
     = [Call ''savePricing'', OnSave, SetState ''setPricing'', SetState ''setProducts'',
        SetState ''setProductVariations'', SetState ''setSalePlatformCommissions'',
        FormReset, OnCancel, ToastSuccess PricingSaved, FormReset]
   \<and> events (snd (onSubmit_erp requestSaved_erp exampleIntegrationForm exampleIntegration))
     = [Call ''saveIntegrationProductSupplierErp'', OnSave,
        SetState ''setIntegrationProductSupplierErp'', SetState ''setProducts'',
        SetState ''setProductVariations'', FormReset, OnCancel,
        ToastSuccess IntegrationSaved, FormReset]"
  by code_simp

end
